theory Spec2Isabelle
  imports Complex_Main
begin

section \<open>Data model of the stream reader\<close>

text \<open>
  The reader of \<^verbatim>\<open>stream_reader.cpp\<close> sits between three collaborators whose code
  is elsewhere: the demultiplexer (\<^verbatim>\<open>av_read_frame\<close>, \<^verbatim>\<open>avformat_seek_file\<close>), the
  per-stream \<^verbatim>\<open>StreamProcessor\<close> and the steady clock. The reader's own state is a
  record; what the collaborators compute is a record of functions passed to every
  operation, so that each result below holds for every behaviour they may have. The
  methods modelled are the ones the statements below are about; \<^verbatim>\<open>get_metadata\<close>,
  \<^verbatim>\<open>get_out_stream_info\<close>, \<^verbatim>\<open>find_best_audio_stream\<close>, \<^verbatim>\<open>find_best_video_stream\<close>
  and \<^verbatim>\<open>pop_chunks\<close> are left out.

  C++ \<^verbatim>\<open>int\<close> and \<^verbatim>\<open>int64_t\<close> values are HOL integers; the narrowing conversions the
  source performs are written out (\<open>static_cast_int\<close>). A \<^verbatim>\<open>double\<close> is a real number
  (not-a-number and the infinities are outside the model); where the rounding of a
  product decides a result, in the deadline of \<open>process_packet_block\<close>, the product
  is the library's \<open>double_mul\<close>. An exception is a value of
  type \<open>error\<close> returned with the state the object is left in when it is thrown.
\<close>

datatype AVMediaType =
    AVMEDIA_TYPE_UNKNOWN
  | AVMEDIA_TYPE_VIDEO
  | AVMEDIA_TYPE_AUDIO
  | AVMEDIA_TYPE_DATA
  | AVMEDIA_TYPE_SUBTITLE
  | AVMEDIA_TYPE_ATTACHMENT

datatype AVDiscard = AVDISCARD_DEFAULT | AVDISCARD_ALL

record AVCodecParameters =
  codec_type :: AVMediaType
  format :: int
  bit_rate :: int
  bits_per_raw_sample :: int
  sample_rate :: int
  channels :: int
  width :: int
  height :: int

record AVStream =
  codecpar :: AVCodecParameters
  discard :: AVDiscard
  nb_frames :: int
  time_base :: "int \<times> int"

text \<open>\<open>nb_streams\<close> is the length of \<open>streams\<close>; \<open>demux\<close> is the demultiplexer's own
  state (read position, input), which only the library reads.\<close>

record 'd AVFormatContext =
  streams :: "AVStream list"
  demux :: 'd

record AVPacket =
  stream_index :: int
  size :: int

datatype DeviceType = CPU | CUDA | OtherDevice

datatype Device = Device DeviceType

type_synonym OptionDict = "(string \<times> string) list"

record SrcStreamInfo =
  media_type :: AVMediaType
  info_bit_rate :: int
  num_frames :: int
  bits_per_sample :: int
  info_sample_rate :: real
  num_channels :: int
  info_width :: int
  info_height :: int

text \<open>The exceptions of the reader, one constructor per \<^verbatim>\<open>throw\<close> of the source.
  \<open>CollaboratorError\<close> is an exception raised inside a library call and not caught by
  the reader; \<open>UndefinedBehaviour\<close> marks an execution the C++ standard gives no
  meaning to (a null dereference, an access outside a vector, a conversion out of range).\<close>

datatype 'x error =
    StreamNotOpen
  | SrcIndexOutOfRange
  | OutIndexOutOfRange
  | NotMediaType int AVMediaType
  | FormatNotDetected
  | NegativeTimestamp
  | SeekFailed int
  | ProbeFailed
  | OnlyCudaSupported
  | NoCudaSupport
  | CollaboratorError 'x
  | UndefinedBehaviour

record ('d, 'p) StreamReader =
  pFormatContext :: "'d AVFormatContext option"
  processors :: "'p option list"
  stream_indices :: "(int \<times> int) list"

text \<open>The libraries. \<open>'d\<close> is the demultiplexer's state, \<open>'p\<close> a stream processor,
  \<open>'x\<close> what a library exception carries, \<open>'c\<close> the state of the steady clock. A clock
  reading is a number of ticks of the clock's 64-bit time point;
  \<open>ticks_per_microsecond\<close> converts a duration. \<open>double_mul\<close> is the product of two
  doubles as the machine rounds it.\<close>

record ('d, 'p, 'x, 'c) libs =
  AVERROR_EOF :: int
  AVERROR_EAGAIN :: int
  AV_TIME_BASE :: int
  USE_CUDA :: bool
  SrcStreamInfo_init :: SrcStreamInfo
  avformat_find_stream_info :: "'d AVFormatContext \<Rightarrow> int \<times> 'd AVFormatContext"
  av_read_frame :: "'d AVFormatContext \<Rightarrow> int \<times> AVPacket \<times> 'd AVFormatContext"
  avformat_seek_file ::
    "'d AVFormatContext \<Rightarrow> int \<Rightarrow> int \<Rightarrow> int \<Rightarrow> int \<Rightarrow> int \<Rightarrow> int \<times> 'd AVFormatContext"
  torch_Device :: "string \<Rightarrow> 'x + Device"
  StreamProcessor_new ::
    "AVCodecParameters \<Rightarrow> string option \<Rightarrow> OptionDict option \<Rightarrow> Device \<Rightarrow> 'x + 'p"
  proc_add_stream ::
    "'p \<Rightarrow> int \<times> int \<Rightarrow> AVCodecParameters \<Rightarrow> int \<Rightarrow> int \<Rightarrow> string option \<Rightarrow> Device
      \<Rightarrow> ('x + int) \<times> 'p"
  proc_remove_stream :: "'p \<Rightarrow> int \<Rightarrow> ('x + unit) \<times> 'p"
  proc_process_packet :: "'p \<Rightarrow> AVPacket option \<Rightarrow> int \<times> 'p"
  proc_flush :: "'p \<Rightarrow> 'p"
  proc_is_buffer_ready :: "'p \<Rightarrow> bool"
  steady_clock_now :: "'c \<Rightarrow> int \<times> 'c"
  sleep_for :: "int \<Rightarrow> 'c \<Rightarrow> 'c"
  ticks_per_microsecond :: int
  double_mul :: "real \<Rightarrow> real \<Rightarrow> real"

section \<open>Conversions and vector access\<close>

definition INT64_MIN :: int where
  "INT64_MIN = - (2 ^ 63)"

definition INT64_MAX :: int where
  "INT64_MAX = 2 ^ 63 - 1"

text \<open>\<^verbatim>\<open>static_cast<int>(x)\<close> of a wider integer: the value modulo \<open>2^32\<close>, read as a
  signed 32-bit number.\<close>

definition static_cast_int :: "int \<Rightarrow> int" where
  "static_cast_int x = (x + 2 ^ 31) mod 2 ^ 32 - 2 ^ 31"


text \<open>\<^verbatim>\<open>static_cast<int64_t>(d)\<close> of a double: truncation towards zero, and no value
  at all when the truncated number does not fit.\<close>

definition static_cast_int64 :: "real \<Rightarrow> int option" where
  "static_cast_int64 d =
     (let t = (if 0 \<le> d then \<lfloor>d\<rfloor> else \<lceil>d\<rceil>)
      in if INT64_MIN \<le> t \<and> t \<le> INT64_MAX then Some t else None)"

text \<open>\<^verbatim>\<open>v[i]\<close> on a vector: \<open>None\<close> outside the vector.\<close>

definition vec_at :: "'a list \<Rightarrow> int \<Rightarrow> 'a option" where
  "vec_at v i = (if 0 \<le> i \<and> i < int (length v) then Some (v ! nat i) else None)"

definition vec_set :: "'a list \<Rightarrow> int \<Rightarrow> 'a \<Rightarrow> 'a list" where
  "vec_set v i x = v[nat i := x]"

text \<open>\<^verbatim>\<open>v.erase(v.begin() + i)\<close>.\<close>

definition vec_erase :: "'a list \<Rightarrow> int \<Rightarrow> 'a list" where
  "vec_erase v i = take (nat i) v @ drop (Suc (nat i)) v"

section \<open>Helper methods\<close>

definition validate_open_stream :: "('d, 'p) StreamReader \<Rightarrow> 'x error option" where
  "validate_open_stream s =
     (case pFormatContext s of None \<Rightarrow> Some StreamNotOpen | Some ctx \<Rightarrow> None)"

definition validate_src_stream_index :: "('d, 'p) StreamReader \<Rightarrow> int \<Rightarrow> 'x error option" where
  "validate_src_stream_index s i =
     (case validate_open_stream s of
        Some e \<Rightarrow> Some e
      | None \<Rightarrow>
         (case pFormatContext s of
            None \<Rightarrow> Some UndefinedBehaviour
          | Some ctx \<Rightarrow>
              if i < 0 \<or> i \<ge> static_cast_int (int (length (streams ctx)))
              then Some SrcIndexOutOfRange else None))"

definition validate_output_stream_index :: "('d, 'p) StreamReader \<Rightarrow> int \<Rightarrow> 'x error option" where
  "validate_output_stream_index s i =
     (if i < 0 \<or> i \<ge> static_cast_int (int (length (stream_indices s)))
      then Some OutIndexOutOfRange else None)"

definition validate_src_stream_type ::
  "('d, 'p) StreamReader \<Rightarrow> int \<Rightarrow> AVMediaType \<Rightarrow> 'x error option" where
  "validate_src_stream_type s i type =
     (case validate_src_stream_index s i of
        Some e \<Rightarrow> Some e
      | None \<Rightarrow>
         (case pFormatContext s of
            None \<Rightarrow> Some UndefinedBehaviour
          | Some ctx \<Rightarrow>
             (case vec_at (streams ctx) i of
                None \<Rightarrow> Some UndefinedBehaviour
              | Some stream \<Rightarrow>
                  if codec_type (codecpar stream) \<noteq> type then Some (NotMediaType i type)
                  else None)))"

section \<open>Initialization\<close>

text \<open>The constructor's loop: every stream that is neither audio nor video is marked
  to be discarded.\<close>

fun discard_unsupported :: "AVStream list \<Rightarrow> AVStream list" where
  "discard_unsupported [] = []"
| "discard_unsupported (st # rest) =
     (case codec_type (codecpar st) of
        AVMEDIA_TYPE_AUDIO \<Rightarrow> st
      | AVMEDIA_TYPE_VIDEO \<Rightarrow> st
      | _ \<Rightarrow> st\<lparr>discard := AVDISCARD_ALL\<rparr>) # discard_unsupported rest"

definition StreamReader_new ::
  "('d, 'p, 'x, 'c) libs \<Rightarrow> 'd AVFormatContext \<Rightarrow> 'x error + ('d, 'p) StreamReader" where
  "StreamReader_new L p =
     (case avformat_find_stream_info L p of
        (ret, ctx) \<Rightarrow>
          if ret < 0 then Inl ProbeFailed
          else Inr \<lparr> pFormatContext = Some (ctx\<lparr>streams := discard_unsupported (streams ctx)\<rparr>),
                     processors = replicate (length (streams ctx)) None,
                     stream_indices = [] \<rparr>)"

section \<open>Query methods\<close>

definition num_src_streams :: "('d, 'p) StreamReader \<Rightarrow> int option" where
  "num_src_streams s = map_option (\<lambda>ctx. int (length (streams ctx))) (pFormatContext s)"

text \<open>The numeric fields of \<^verbatim>\<open>get_src_stream_info\<close>. The metadata and the codec and format
  names, which the source copies from look-ups in the demultiplexing library, are
  not part of the record.\<close>

definition get_src_stream_info ::
  "('d, 'p, 'x, 'c) libs \<Rightarrow> ('d, 'p) StreamReader \<Rightarrow> int \<Rightarrow> 'x error + SrcStreamInfo" where
  "get_src_stream_info L s i =
     (case validate_src_stream_index s i of
        Some e \<Rightarrow> Inl e
      | None \<Rightarrow>
         (case pFormatContext s of
            None \<Rightarrow> Inl UndefinedBehaviour
          | Some ctx \<Rightarrow>
             (case vec_at (streams ctx) i of
                None \<Rightarrow> Inl UndefinedBehaviour
              | Some stream \<Rightarrow>
                  let par = codecpar stream;
                      ret = (SrcStreamInfo_init L)
                              \<lparr> media_type := codec_type par,
                                info_bit_rate := bit_rate par,
                                num_frames := nb_frames stream,
                                bits_per_sample := bits_per_raw_sample par \<rparr>
                  in Inr (case codec_type par of
                            AVMEDIA_TYPE_AUDIO \<Rightarrow>
                              ret\<lparr> info_sample_rate := real_of_int (sample_rate par),
                                   num_channels := channels par \<rparr>
                          | AVMEDIA_TYPE_VIDEO \<Rightarrow>
                              ret\<lparr> info_width := width par, info_height := height par \<rparr>
                          | _ \<Rightarrow> ret))))"

definition num_out_streams :: "('d, 'p) StreamReader \<Rightarrow> int" where
  "num_out_streams s = int (length (stream_indices s))"

text \<open>The loop of \<^verbatim>\<open>is_buffer_ready\<close>: the first processor that is present and not
  ready ends it with \<open>False\<close>.\<close>

fun buffers_ready :: "('p \<Rightarrow> bool) \<Rightarrow> 'p option list \<Rightarrow> bool" where
  "buffers_ready ready [] = True"
| "buffers_ready ready (None # rest) = buffers_ready ready rest"
| "buffers_ready ready (Some p # rest) =
     (if \<not> ready p then False else buffers_ready ready rest)"

definition is_buffer_ready :: "('d, 'p, 'x, 'c) libs \<Rightarrow> ('d, 'p) StreamReader \<Rightarrow> bool" where
  "is_buffer_ready L s = buffers_ready (proc_is_buffer_ready L) (processors s)"

section \<open>Configure methods\<close>

text \<open>The loop of \<^verbatim>\<open>seek\<close> over the processors.\<close>

fun flush_all :: "('p \<Rightarrow> 'p) \<Rightarrow> 'p option list \<Rightarrow> 'p option list" where
  "flush_all fl [] = []"
| "flush_all fl (None # rest) = None # flush_all fl rest"
| "flush_all fl (Some p # rest) = Some (fl p) # flush_all fl rest"

definition seek ::
  "('d, 'p, 'x, 'c) libs \<Rightarrow> real \<Rightarrow> ('d, 'p) StreamReader
    \<Rightarrow> ('x error + unit) \<times> ('d, 'p) StreamReader" where
  "seek L timestamp s =
     (if timestamp < 0 then (Inl NegativeTimestamp, s)
      else
       (case static_cast_int64 (timestamp * real_of_int (AV_TIME_BASE L)) of
          None \<Rightarrow> (Inl UndefinedBehaviour, s)
        | Some ts \<Rightarrow>
           (case pFormatContext s of
              None \<Rightarrow> (Inl UndefinedBehaviour, s)
            | Some ctx \<Rightarrow>
               (case avformat_seek_file L ctx (- 1) INT64_MIN ts INT64_MAX 0 of
                  (ret, ctx') \<Rightarrow>
                    let s1 = s\<lparr>pFormatContext := Some ctx'\<rparr>
                    in if ret < 0 then (Inl (SeekFailed ret), s1)
                       else (Inr (), s1\<lparr>processors := flush_all (proc_flush L) (processors s1)\<rparr>)))))"

definition add_stream ::
  "('d, 'p, 'x, 'c) libs \<Rightarrow> int \<Rightarrow> AVMediaType \<Rightarrow> int \<Rightarrow> int \<Rightarrow> string option \<Rightarrow> string option
    \<Rightarrow> OptionDict option \<Rightarrow> Device \<Rightarrow> ('d, 'p) StreamReader
    \<Rightarrow> ('x error + unit) \<times> ('d, 'p) StreamReader" where
  "add_stream L i type frames_per_chunk num_chunks filter_desc decoder decoder_option device s =
     (case validate_src_stream_type s i type of
        Some e \<Rightarrow> (Inl e, s)
      | None \<Rightarrow>
         (case pFormatContext s of
            None \<Rightarrow> (Inl UndefinedBehaviour, s)
          | Some ctx \<Rightarrow>
             (case vec_at (streams ctx) i of
                None \<Rightarrow> (Inl UndefinedBehaviour, s)
              | Some stream \<Rightarrow>
                  if format (codecpar stream) = - 1 then (Inl FormatNotDetected, s)
                  else
                   (case vec_at (processors s) i of
                      None \<Rightarrow> (Inl UndefinedBehaviour, s)
                    | Some slot \<Rightarrow>
                       (case (case slot of
                                Some p \<Rightarrow> Inr p
                              | None \<Rightarrow>
                                  StreamProcessor_new L (codecpar stream) decoder decoder_option device) of
                          Inl x \<Rightarrow> (Inl (CollaboratorError x), s)
                        | Inr p \<Rightarrow>
                           (let ctx1 = ctx\<lparr>streams :=
                                  vec_set (streams ctx) i (stream\<lparr>discard := AVDISCARD_DEFAULT\<rparr>)\<rparr>
                            in case proc_add_stream L p (time_base stream) (codecpar stream)
                                      frames_per_chunk num_chunks filter_desc device of
                                 (Inl x, p') \<Rightarrow>
                                   (Inl (CollaboratorError x),
                                    s\<lparr> pFormatContext := Some ctx1,
                                       processors := vec_set (processors s) i (Some p') \<rparr>)
                               | (Inr key, p') \<Rightarrow>
                                   (Inr (),
                                    s\<lparr> pFormatContext := Some ctx1,
                                       processors := vec_set (processors s) i (Some p'),
                                       stream_indices := stream_indices s @ [(i, key)] \<rparr>)))))))"

definition add_audio_stream ::
  "('d, 'p, 'x, 'c) libs \<Rightarrow> int \<Rightarrow> int \<Rightarrow> int \<Rightarrow> string option \<Rightarrow> string option
    \<Rightarrow> OptionDict option \<Rightarrow> ('d, 'p) StreamReader
    \<Rightarrow> ('x error + unit) \<times> ('d, 'p) StreamReader" where
  "add_audio_stream L i frames_per_chunk num_chunks filter_desc decoder decoder_option s =
     add_stream L (static_cast_int i) AVMEDIA_TYPE_AUDIO (static_cast_int frames_per_chunk)
       (static_cast_int num_chunks) filter_desc decoder decoder_option (Device CPU) s"

text \<open>The device of \<^verbatim>\<open>add_video_stream\<close>, computed before \<^verbatim>\<open>add_stream\<close> is called.
  With \<^verbatim>\<open>USE_CUDA\<close> the message of the second exception is built from the device being
  initialised; only the exception itself is modelled.\<close>

definition hw_accel_device :: "('d, 'p, 'x, 'c) libs \<Rightarrow> string option \<Rightarrow> 'x error + Device" where
  "hw_accel_device L hw_accel =
     (case hw_accel of
        None \<Rightarrow> Inr (Device CPU)
      | Some name \<Rightarrow>
          if USE_CUDA L then
            (case torch_Device L name of
               Inl x \<Rightarrow> Inl (CollaboratorError x)
             | Inr (Device t) \<Rightarrow> if t \<noteq> CUDA then Inl OnlyCudaSupported else Inr (Device t))
          else Inl NoCudaSupport)"

definition add_video_stream ::
  "('d, 'p, 'x, 'c) libs \<Rightarrow> int \<Rightarrow> int \<Rightarrow> int \<Rightarrow> string option \<Rightarrow> string option
    \<Rightarrow> OptionDict option \<Rightarrow> string option \<Rightarrow> ('d, 'p) StreamReader
    \<Rightarrow> ('x error + unit) \<times> ('d, 'p) StreamReader" where
  "add_video_stream L i frames_per_chunk num_chunks filter_desc decoder decoder_option hw_accel s =
     (case hw_accel_device L hw_accel of
        Inl e \<Rightarrow> (Inl e, s)
      | Inr device \<Rightarrow>
          add_stream L (static_cast_int i) AVMEDIA_TYPE_VIDEO (static_cast_int frames_per_chunk)
            (static_cast_int num_chunks) filter_desc decoder decoder_option device s)"

text \<open>The scan of \<^verbatim>\<open>remove_stream\<close> for another output stream on the same source.\<close>

fun scan_still_used :: "int \<Rightarrow> (int \<times> int) list \<Rightarrow> bool \<Rightarrow> bool" where
  "scan_still_used iP [] still_used = still_used"
| "scan_still_used iP (p # rest) still_used =
     (let still_used1 = (still_used \<or> iP = fst p)
      in if still_used1 then still_used1 else scan_still_used iP rest still_used1)"

text \<open>The index is checked after \<^verbatim>\<open>static_cast<int>\<close>; the iterator is
  \<^verbatim>\<open>begin() + i\<close> with the \<^verbatim>\<open>int64_t\<close> itself.\<close>

definition remove_stream ::
  "('d, 'p, 'x, 'c) libs \<Rightarrow> int \<Rightarrow> ('d, 'p) StreamReader
    \<Rightarrow> ('x error + unit) \<times> ('d, 'p) StreamReader" where
  "remove_stream L i s =
     (case validate_output_stream_index s (static_cast_int i) of
        Some e \<Rightarrow> (Inl e, s)
      | None \<Rightarrow>
         (case vec_at (stream_indices s) i of
            None \<Rightarrow> (Inl UndefinedBehaviour, s)
          | Some (iP, key) \<Rightarrow>
             (case vec_at (processors s) iP of
                None \<Rightarrow> (Inl UndefinedBehaviour, s)
              | Some None \<Rightarrow> (Inl UndefinedBehaviour, s)
              | Some (Some p) \<Rightarrow>
                 (case proc_remove_stream L p key of
                    (Inl x, p') \<Rightarrow>
                      (Inl (CollaboratorError x),
                       s\<lparr>processors := vec_set (processors s) iP (Some p')\<rparr>)
                  | (Inr u, p') \<Rightarrow>
                      let s1 = s\<lparr> processors := vec_set (processors s) iP (Some p'),
                                  stream_indices := vec_erase (stream_indices s) i \<rparr>
                      in if \<not> scan_still_used iP (stream_indices s1) False
                         then (Inr (), s1\<lparr>processors := vec_set (processors s1) iP None\<rparr>)
                         else (Inr (), s1)))))"

section \<open>Stream methods\<close>

text \<open>The loop of \<^verbatim>\<open>drain\<close>: \<open>ret\<close> is the status so far.\<close>

fun drain_loop ::
  "('p \<Rightarrow> AVPacket option \<Rightarrow> int \<times> 'p) \<Rightarrow> 'p option list \<Rightarrow> int \<Rightarrow> int \<times> 'p option list" where
  "drain_loop pp [] ret = (ret, [])"
| "drain_loop pp (None # rest) ret =
     (case drain_loop pp rest ret of (r, rest') \<Rightarrow> (r, None # rest'))"
| "drain_loop pp (Some p # rest) ret =
     (case pp p None of
        (tmp, p') \<Rightarrow>
          (case drain_loop pp rest (if tmp < 0 then tmp else ret) of
             (r, rest') \<Rightarrow> (r, Some p' # rest')))"

definition drain ::
  "('d, 'p, 'x, 'c) libs \<Rightarrow> ('d, 'p) StreamReader \<Rightarrow> int \<times> ('d, 'p) StreamReader" where
  "drain L s =
     (case drain_loop (proc_process_packet L) (processors s) 0 of
        (ret, ps) \<Rightarrow> (ret, s\<lparr>processors := ps\<rparr>))"

definition process_packet ::
  "('d, 'p, 'x, 'c) libs \<Rightarrow> ('d, 'p) StreamReader
    \<Rightarrow> ('x error + int) \<times> ('d, 'p) StreamReader" where
  "process_packet L s =
     (case pFormatContext s of
        None \<Rightarrow> (Inl UndefinedBehaviour, s)
      | Some ctx \<Rightarrow>
         (case av_read_frame L ctx of
            (ret, packet, ctx') \<Rightarrow>
              let s1 = s\<lparr>pFormatContext := Some ctx'\<rparr>
              in if ret = AVERROR_EOF L then
                   (case drain L s1 of (ret1, s2) \<Rightarrow> (Inr (if ret1 < 0 then ret1 else 1), s2))
                 else if ret < 0 then (Inr ret, s1)
                 else
                  (case vec_at (processors s1) (stream_index packet) of
                     None \<Rightarrow> (Inl UndefinedBehaviour, s1)
                   | Some None \<Rightarrow> (Inr 0, s1)
                   | Some (Some processor) \<Rightarrow>
                      (case proc_process_packet L processor (Some packet) of
                         (ret1, processor') \<Rightarrow>
                           (Inr (if ret1 < 0 then ret1 else 0),
                            s1\<lparr>processors :=
                                 vec_set (processors s1) (stream_index packet) (Some processor')\<rparr>)))))"





section \<open>The effects chain\<close>

text \<open>\<^verbatim>\<open>SoxEffectsChain::addEffect\<close> of \<^verbatim>\<open>effects_chain.cpp\<close>. The audio library is a
  record of functions again: \<open>'h\<close> is an effect handler of its registry, \<open>'e\<close> an effect,
  \<open>'ch\<close> the chain and \<open>'sg\<close> a signal description. \<open>UNSUPPORTED_EFFECTS\<close> is the set
  the header declares. The members \<^verbatim>\<open>sec_\<close>, \<^verbatim>\<open>in_sig_\<close>,
  \<^verbatim>\<open>interm_sig_\<close> and \<^verbatim>\<open>out_sig_\<close> are \<open>sec_chain\<close>, \<open>in_sig\<close>, \<open>interm_sig\<close> and
  \<open>out_sig\<close> here.\<close>

record ('h, 'e, 'ch, 'sg) sox =
  SOX_SUCCESS :: int
  UNSUPPORTED_EFFECTS :: "string set"
  sox_find_effect :: "string \<Rightarrow> 'h option"
  sox_create_effect :: "'h \<Rightarrow> 'e"
  sox_effect_options :: "'e \<Rightarrow> nat \<Rightarrow> string list option \<Rightarrow> int \<times> 'e"
  sox_add_effect :: "'ch \<Rightarrow> 'e \<Rightarrow> 'sg \<Rightarrow> 'sg \<Rightarrow> int \<times> 'ch \<times> 'sg"

record ('ch, 'sg) SoxEffectsChain =
  in_sig :: 'sg
  interm_sig :: 'sg
  out_sig :: 'sg
  sec_chain :: 'ch

datatype sox_error =
    EmptyEffect
  | UnsupportedEffect string
  | InvalidEffectOption "string list"
  | FailedToAddEffect "string list"

text \<open>\<^verbatim>\<open>std::string::c_str()\<close> as the C library reads it: the characters before the
  first null character.\<close>

definition c_str :: "string \<Rightarrow> string" where
  "c_str str = takeWhile (\<lambda>ch. ch \<noteq> CHR 0x00) str"

definition addEffect ::
  "('h, 'e, 'ch, 'sg) sox \<Rightarrow> string list \<Rightarrow> ('ch, 'sg) SoxEffectsChain
    \<Rightarrow> (sox_error + unit) \<times> ('ch, 'sg) SoxEffectsChain" where
  "addEffect X effect s =
     (let num_args = length effect in
      if num_args = 0 then (Inl EmptyEffect, s)
      else
       (let name = hd effect in
        if name \<in> UNSUPPORTED_EFFECTS X then (Inl (UnsupportedEffect name), s)
        else
         (case sox_find_effect X (c_str name) of
            None \<Rightarrow> (Inl (UnsupportedEffect name), s)
          | Some returned_effect \<Rightarrow>
             (let e = sox_create_effect X returned_effect;
                  num_options = num_args - 1;
                  opts = map c_str (tl effect)
              in case sox_effect_options X e num_options
                        (if num_options \<noteq> 0 then Some opts else None) of
                   (st, e1) \<Rightarrow>
                     if st \<noteq> SOX_SUCCESS X then (Inl (InvalidEffectOption effect), s)
                     else
                      (case sox_add_effect X (sec_chain s) e1 (interm_sig s) (in_sig s) of
                         (st1, chain, interm) \<Rightarrow>
                           let s1 = s\<lparr>sec_chain := chain, interm_sig := interm\<rparr>
                           in if st1 \<noteq> SOX_SUCCESS X then (Inl (FailedToAddEffect effect), s1)
                              else (Inr (), s1))))))"

section \<open>The invariant of the reader\<close>

text \<open>Every entry of the output index names a slot of the processor array, and a slot
  holds a processor exactly when some entry names it. One slot per source index: the
  array cannot hold two processors for one index.\<close>

definition referenced :: "('d, 'p) StreamReader \<Rightarrow> int \<Rightarrow> bool" where
  "referenced s i = (i \<in> fst ` set (stream_indices s))"

definition reader_inv :: "('d, 'p) StreamReader \<Rightarrow> bool" where
  "reader_inv s =
     (list_all (\<lambda>e. vec_at (processors s) (fst e) \<noteq> None) (stream_indices s) \<and>
      list_all (\<lambda>i. (processors s ! i \<noteq> None) = referenced s (int i)) [0..<length (processors s)])"

section \<open>Example libraries\<close>

text \<open>Modelled from the spec: the stream processor (section 4.2), whose source is not
  among the files. It keeps the next key and, per live output definition, the key, the
  chunk size and the number of buffered frames. A packet of negative size stands for one
  the decoder fails on, and a negative \<open>decoder_status\<close> for a decoder that fails when it
  is flushed. The instances below give the theorems concrete inputs.\<close>

record SpecProcessor =
  current_key :: int
  sinks :: "(int \<times> int \<times> int) list"
  decoder_status :: int

definition spec_add_stream ::
  "SpecProcessor \<Rightarrow> int \<times> int \<Rightarrow> AVCodecParameters \<Rightarrow> int \<Rightarrow> int \<Rightarrow> string option \<Rightarrow> Device
    \<Rightarrow> (string + int) \<times> SpecProcessor" where
  "spec_add_stream p tb par frames_per_chunk num_chunks filter_desc device =
     (Inr (current_key p),
      p\<lparr> current_key := current_key p + 1,
         sinks := sinks p @ [(current_key p, frames_per_chunk, 0)] \<rparr>)"

definition spec_remove_stream :: "SpecProcessor \<Rightarrow> int \<Rightarrow> (string + unit) \<times> SpecProcessor" where
  "spec_remove_stream p key =
     (if key \<in> fst ` set (sinks p)
      then (Inr (), p\<lparr>sinks := filter (\<lambda>e. fst e \<noteq> key) (sinks p)\<rparr>)
      else (Inl ''unknown key'', p))"

definition spec_process_packet :: "SpecProcessor \<Rightarrow> AVPacket option \<Rightarrow> int \<times> SpecProcessor" where
  "spec_process_packet p packet =
     (case packet of
        None \<Rightarrow>
          if decoder_status p < 0 then (decoder_status p, p)
          else (0, p\<lparr>sinks := map (\<lambda>(k, n, b). (k, n, max n b)) (sinks p)\<rparr>)
      | Some pkt \<Rightarrow>
          if size pkt < 0 then (size pkt, p)
          else (0, p\<lparr>sinks := map (\<lambda>(k, n, b). (k, n, b + size pkt)) (sinks p)\<rparr>))"

definition spec_flush :: "SpecProcessor \<Rightarrow> SpecProcessor" where
  "spec_flush p = p\<lparr>sinks := map (\<lambda>(k, n, b). (k, n, 0)) (sinks p)\<rparr>"

definition spec_is_buffer_ready :: "SpecProcessor \<Rightarrow> bool" where
  "spec_is_buffer_ready p = list_all (\<lambda>(k, n, b). n \<le> b) (sinks p)"

text \<open>A demultiplexer that replays a script of read results and reports the end of the
  stream after it; a clock that counts nanoseconds and advances only while sleeping; a
  product of doubles that is exact, as it is on the small whole numbers of the
  examples.\<close>

definition script_read ::
  "(int \<times> AVPacket) list AVFormatContext
    \<Rightarrow> int \<times> AVPacket \<times> (int \<times> AVPacket) list AVFormatContext" where
  "script_read ctx =
     (case demux ctx of
        [] \<Rightarrow> (- 541478725, \<lparr>stream_index = 0, size = 0\<rparr>, ctx)
      | (ret, pkt) # rest \<Rightarrow> (ret, pkt, ctx\<lparr>demux := rest\<rparr>))"

definition example_libs :: "((int \<times> AVPacket) list, SpecProcessor, string, int) libs" where
  "example_libs =
     \<lparr> AVERROR_EOF = - 541478725,
       AVERROR_EAGAIN = - 11,
       AV_TIME_BASE = 1000000,
       USE_CUDA = False,
       SrcStreamInfo_init =
         \<lparr> media_type = AVMEDIA_TYPE_UNKNOWN, info_bit_rate = 0, num_frames = 0,
           bits_per_sample = 0, info_sample_rate = 0, num_channels = 0,
           info_width = 0, info_height = 0 \<rparr>,
       avformat_find_stream_info = (\<lambda>ctx. (0, ctx)),
       av_read_frame = script_read,
       avformat_seek_file = (\<lambda>ctx si mn ts mx fl. (0, ctx\<lparr>demux := []\<rparr>)),
       torch_Device = (\<lambda>name. if name = ''cuda'' then Inr (Device CUDA) else Inl ''device''),
       StreamProcessor_new = (\<lambda>par decoder opts device. Inr \<lparr>current_key = 0, sinks = [], decoder_status = 0\<rparr>),
       proc_add_stream = spec_add_stream,
       proc_remove_stream = spec_remove_stream,
       proc_process_packet = spec_process_packet,
       proc_flush = spec_flush,
       proc_is_buffer_ready = spec_is_buffer_ready,
       steady_clock_now = (\<lambda>c. (c, c)),
       sleep_for = (\<lambda>us c. c + 1000 * us),
       ticks_per_microsecond = 1000,
       double_mul = (\<lambda>a b. a * b) \<rparr>"

text \<open>The same libraries with a filter layer that rejects the filter description, so
  that the processor's \<^verbatim>\<open>add_stream\<close> throws.\<close>

definition rejecting_libs :: "((int \<times> AVPacket) list, SpecProcessor, string, int) libs" where
  "rejecting_libs =
     example_libs\<lparr>proc_add_stream := (\<lambda>p tb par n m filter_desc device. (Inl ''filter'', p))\<rparr>"

definition audio_par :: AVCodecParameters where
  "audio_par =
     \<lparr> codec_type = AVMEDIA_TYPE_AUDIO, format = 1, bit_rate = 128000, bits_per_raw_sample = 16,
       sample_rate = 44100, channels = 2, width = 0, height = 0 \<rparr>"

definition video_par :: AVCodecParameters where
  "video_par =
     \<lparr> codec_type = AVMEDIA_TYPE_VIDEO, format = 0, bit_rate = 900000, bits_per_raw_sample = 8,
       sample_rate = 0, channels = 0, width = 640, height = 480 \<rparr>"

definition audio_stream :: AVStream where
  "audio_stream =
     \<lparr>codecpar = audio_par, discard = AVDISCARD_DEFAULT, nb_frames = 0, time_base = (1, 44100)\<rparr>"

definition video_stream :: AVStream where
  "video_stream =
     \<lparr>codecpar = video_par, discard = AVDISCARD_DEFAULT, nb_frames = 0, time_base = (1, 30)\<rparr>"

text \<open>A reader just opened on a container with an audio stream and a video stream, and
  the same reader with a script of reads.\<close>

definition fresh_reader :: "((int \<times> AVPacket) list, SpecProcessor) StreamReader" where
  "fresh_reader =
     \<lparr> pFormatContext = Some \<lparr>streams = [audio_stream, video_stream], demux = []\<rparr>,
       processors = [None, None],
       stream_indices = [] \<rparr>"

definition scripted_reader ::
  "(int \<times> AVPacket) list \<Rightarrow> ((int \<times> AVPacket) list, SpecProcessor) StreamReader" where
  "scripted_reader script =
     \<lparr> pFormatContext = Some \<lparr>streams = [audio_stream, video_stream], demux = script\<rparr>,
       processors = [Some \<lparr>current_key = 1, sinks = [(0, 4, 0)], decoder_status = 0\<rparr>, None],
       stream_indices = [(0, 0)] \<rparr>"

text \<open>A reader on four audio streams: the decoders of the first and the last have
  failed, the second stream has no processor, the third holds one buffered frame.\<close>

definition draining_reader :: "((int \<times> AVPacket) list, SpecProcessor) StreamReader" where
  "draining_reader =
     \<lparr> pFormatContext =
         Some \<lparr>streams = [audio_stream, audio_stream, audio_stream, audio_stream], demux = []\<rparr>,
       processors =
         [Some \<lparr>current_key = 1, sinks = [(0, 4, 0)], decoder_status = - 5\<rparr>,
          None,
          Some \<lparr>current_key = 1, sinks = [(0, 4, 1)], decoder_status = 0\<rparr>,
          Some \<lparr>current_key = 1, sinks = [(0, 4, 0)], decoder_status = - 7\<rparr>],
       stream_indices = [(0, 0), (2, 0), (3, 0)] \<rparr>"

text \<open>The reader above after three output streams were added on the audio stream, and
  the four readers of a sequence A, B, C, remove B: A and C on the audio stream, B on the
  video stream.\<close>

definition busy_reader :: "((int \<times> AVPacket) list, SpecProcessor) StreamReader" where
  "busy_reader =
     \<lparr> pFormatContext = Some \<lparr>streams = [audio_stream, video_stream], demux = []\<rparr>,
       processors = [Some \<lparr>current_key = 3, sinks = [(0, 4, 0), (1, 8, 0), (2, 16, 0)], decoder_status = 0\<rparr>, None],
       stream_indices = [(0, 0), (0, 1), (0, 2)] \<rparr>"

definition example_reader ::
  "SpecProcessor option list \<Rightarrow> (int \<times> int) list
    \<Rightarrow> ((int \<times> AVPacket) list, SpecProcessor) StreamReader" where
  "example_reader procs idx =
     \<lparr> pFormatContext = Some \<lparr>streams = [audio_stream, video_stream], demux = []\<rparr>,
       processors = procs,
       stream_indices = idx \<rparr>"

definition reader_A :: "((int \<times> AVPacket) list, SpecProcessor) StreamReader" where
  "reader_A =
     example_reader [Some \<lparr>current_key = 1, sinks = [(0, 4, 0)], decoder_status = 0\<rparr>, None] [(0, 0)]"

definition reader_AB :: "((int \<times> AVPacket) list, SpecProcessor) StreamReader" where
  "reader_AB =
     example_reader
       [Some \<lparr>current_key = 1, sinks = [(0, 4, 0)], decoder_status = 0\<rparr>,
        Some \<lparr>current_key = 1, sinks = [(0, 1, 0)], decoder_status = 0\<rparr>]
       [(0, 0), (1, 0)]"

definition reader_ABC :: "((int \<times> AVPacket) list, SpecProcessor) StreamReader" where
  "reader_ABC =
     example_reader
       [Some \<lparr>current_key = 2, sinks = [(0, 4, 0), (1, 8, 0)], decoder_status = 0\<rparr>,
        Some \<lparr>current_key = 1, sinks = [(0, 1, 0)], decoder_status = 0\<rparr>]
       [(0, 0), (1, 0), (0, 1)]"

definition reader_AC :: "((int \<times> AVPacket) list, SpecProcessor) StreamReader" where
  "reader_AC =
     example_reader
       [Some \<lparr>current_key = 2, sinks = [(0, 4, 0), (1, 8, 0)], decoder_status = 0\<rparr>, None]
       [(0, 0), (0, 1)]"

text \<open>An audio library with four effects in its registry, and an empty chain.\<close>

definition example_sox :: "(string, string \<times> string list, (string \<times> string list) list, int) sox" where
  "example_sox =
     \<lparr> SOX_SUCCESS = 0,
       UNSUPPORTED_EFFECTS = {''input'', ''output'', ''spectrogram'', ''noiseprof'', ''noisered'', ''splice''},
       sox_find_effect = (\<lambda>name. if name \<in> {''input'', ''output'', ''rate'', ''gain''} then Some name else None),
       sox_create_effect = (\<lambda>h. (h, [])),
       sox_effect_options = (\<lambda>e n opts. (0, (fst e, case opts of None \<Rightarrow> [] | Some os \<Rightarrow> os))),
       sox_add_effect = (\<lambda>chain e interm inp. (0, chain @ [e], interm)) \<rparr>"

definition empty_chain :: "((string \<times> string list) list, int) SoxEffectsChain" where
  "empty_chain = \<lparr>in_sig = 44100, interm_sig = 44100, out_sig = 0, sec_chain = []\<rparr>"

section \<open>Vocabulary of the statements\<close>

text \<open>The processors that are present, in the order of the array, and the status a
  drain pass reports for the statuses of its flushes: the last negative one, or 0.\<close>

fun active :: "'p option list \<Rightarrow> 'p list" where
  "active [] = []"
| "active (None # rest) = active rest"
| "active (Some p # rest) = p # active rest"

definition last_failure :: "int list \<Rightarrow> int" where
  "last_failure sts = (case filter (\<lambda>r. r < 0) sts of [] \<Rightarrow> 0 | x # xs \<Rightarrow> last (x # xs))"








section \<open>Conversions\<close>

lemma static_cast_int_id: "- (2 ^ 31) \<le> x \<Longrightarrow> x < 2 ^ 31 \<Longrightarrow> static_cast_int x = x"
  unfolding static_cast_int_def by (simp add: mod_pos_pos_trivial)

lemma flush_all_map: "flush_all fl ps = map (map_option fl) ps"
  by (induction fl ps rule: flush_all.induct) auto

lemma drain_loop_eq:
  "drain_loop pp ps ret =
     ((case filter (\<lambda>r. r < 0) (map (\<lambda>p. fst (pp p None)) (active ps)) of
         [] \<Rightarrow> ret | x # xs \<Rightarrow> last (x # xs)),
      map (map_option (\<lambda>p. snd (pp p None))) ps)"
  by (induction pp ps ret rule: drain_loop.induct)
     (auto split: prod.splits list.splits if_splits)

lemma drain_eq:
  "drain L s =
     (last_failure (map (\<lambda>p. fst (proc_process_packet L p None)) (active (processors s))),
      s\<lparr>processors := map (map_option (\<lambda>p. snd (proc_process_packet L p None))) (processors s)\<rparr>)"
  by (simp add: drain_def drain_loop_eq last_failure_def)

lemma buffers_ready_all_absent: "list_all (\<lambda>p. p = None) ps \<Longrightarrow> buffers_ready ready ps"
  by (induction ps) auto

lemma buffers_ready_iff: "buffers_ready ready ps = (\<forall>p. Some p \<in> set ps \<longrightarrow> ready p)"
  by (induction ready ps rule: buffers_ready.induct) auto

section \<open>Reading and draining\<close>

text \<open>
  Claim C1. One call of \<open>process_packet\<close> on an open reader, by the outcome of the read.
  On the end of the stream every processor that is present is flushed with the null
  packet and the call returns 1, or the negative status of the drain. Another negative
  status is returned as it is. A packet for a slot without a processor returns 0 and
  leaves the processor array as it was. Otherwise the packet goes to the processor of
  its slot, only that slot changes, and the call returns 0 or the processor's negative
  status.
\<close>

theorem process_packet_outcomes:
  assumes "pFormatContext s = Some ctx" and "av_read_frame L ctx = (ret, packet, ctx')"
  shows
   "(ret = AVERROR_EOF L \<longrightarrow>
       process_packet L s =
         (Inr (if fst (drain L (s\<lparr>pFormatContext := Some ctx'\<rparr>)) < 0
               then fst (drain L (s\<lparr>pFormatContext := Some ctx'\<rparr>)) else 1),
          s\<lparr> pFormatContext := Some ctx',
             processors :=
               map (map_option (\<lambda>p. snd (proc_process_packet L p None))) (processors s) \<rparr>)) \<and>
    (ret \<noteq> AVERROR_EOF L \<and> ret < 0 \<longrightarrow>
       process_packet L s = (Inr ret, s\<lparr>pFormatContext := Some ctx'\<rparr>)) \<and>
    (ret \<noteq> AVERROR_EOF L \<and> 0 \<le> ret \<and>
     vec_at (processors s) (stream_index packet) = Some None \<longrightarrow>
       process_packet L s = (Inr 0, s\<lparr>pFormatContext := Some ctx'\<rparr>)) \<and>
    (\<forall>p. ret \<noteq> AVERROR_EOF L \<and> 0 \<le> ret \<and>
         vec_at (processors s) (stream_index packet) = Some (Some p) \<longrightarrow>
       process_packet L s =
         (Inr (if fst (proc_process_packet L p (Some packet)) < 0
               then fst (proc_process_packet L p (Some packet)) else 0),
          s\<lparr> pFormatContext := Some ctx',
             processors := (processors s)[nat (stream_index packet) :=
                              Some (snd (proc_process_packet L p (Some packet)))] \<rparr>))"
  using assms
  by (auto simp: process_packet_def drain_eq vec_set_def Let_def split: prod.splits)

theorem process_packet_outcomes_witness:
  "process_packet example_libs (scripted_reader []) =
     (Inr 1, (scripted_reader [])\<lparr>processors := [Some \<lparr>current_key = 1, sinks = [(0, 4, 4)], decoder_status = 0\<rparr>, None]\<rparr>) \<and>
   process_packet example_libs (scripted_reader [(- 11, \<lparr>stream_index = 0, size = 0\<rparr>)]) = (Inr (- 11), scripted_reader []) \<and>
   process_packet example_libs (scripted_reader [(0, \<lparr>stream_index = 1, size = 3\<rparr>)]) = (Inr 0, scripted_reader []) \<and>
   process_packet example_libs (scripted_reader [(0, \<lparr>stream_index = 0, size = 3\<rparr>)]) =
     (Inr 0, (scripted_reader [])\<lparr>processors := [Some \<lparr>current_key = 1, sinks = [(0, 4, 3)], decoder_status = 0\<rparr>, None]\<rparr>) \<and>
   process_packet example_libs (scripted_reader [(0, \<lparr>stream_index = 0, size = - 3\<rparr>)]) = (Inr (- 3), scripted_reader [])"
  using process_packet_outcomes [where s = "scripted_reader []" and L = example_libs
          and ctx = "\<lparr>streams = [audio_stream, video_stream], demux = []\<rparr>"
          and ret = "- 541478725" and packet = "\<lparr>stream_index = 0, size = 0\<rparr>"
          and ctx' = "\<lparr>streams = [audio_stream, video_stream], demux = []\<rparr>"]
    process_packet_outcomes [where s = "scripted_reader [(- 11, \<lparr>stream_index = 0, size = 0\<rparr>)]" and L = example_libs
          and ctx = "\<lparr>streams = [audio_stream, video_stream], demux = [(- 11, \<lparr>stream_index = 0, size = 0\<rparr>)]\<rparr>"
          and ret = "- 11" and packet = "\<lparr>stream_index = 0, size = 0\<rparr>"
          and ctx' = "\<lparr>streams = [audio_stream, video_stream], demux = []\<rparr>"]
    process_packet_outcomes [where s = "scripted_reader [(0, \<lparr>stream_index = 1, size = 3\<rparr>)]" and L = example_libs
          and ctx = "\<lparr>streams = [audio_stream, video_stream], demux = [(0, \<lparr>stream_index = 1, size = 3\<rparr>)]\<rparr>"
          and ret = 0 and packet = "\<lparr>stream_index = 1, size = 3\<rparr>"
          and ctx' = "\<lparr>streams = [audio_stream, video_stream], demux = []\<rparr>"]
    process_packet_outcomes [where s = "scripted_reader [(0, \<lparr>stream_index = 0, size = 3\<rparr>)]" and L = example_libs
          and ctx = "\<lparr>streams = [audio_stream, video_stream], demux = [(0, \<lparr>stream_index = 0, size = 3\<rparr>)]\<rparr>"
          and ret = 0 and packet = "\<lparr>stream_index = 0, size = 3\<rparr>"
          and ctx' = "\<lparr>streams = [audio_stream, video_stream], demux = []\<rparr>"]
    process_packet_outcomes [where s = "scripted_reader [(0, \<lparr>stream_index = 0, size = - 3\<rparr>)]" and L = example_libs
          and ctx = "\<lparr>streams = [audio_stream, video_stream], demux = [(0, \<lparr>stream_index = 0, size = - 3\<rparr>)]\<rparr>"
          and ret = 0 and packet = "\<lparr>stream_index = 0, size = - 3\<rparr>"
          and ctx' = "\<lparr>streams = [audio_stream, video_stream], demux = []\<rparr>"]
  by (simp add: scripted_reader_def example_libs_def script_read_def vec_at_def drain_def spec_process_packet_def)

text \<open>
  Claim C9. The drain pass flushes every processor that is present, whatever the
  flushes before it returned, and its status is the last negative status among them,
  or 0 when none is negative.
\<close>

theorem drain_flushes_all:
  "drain L s =
     (last_failure (map (\<lambda>p. fst (proc_process_packet L p None)) (active (processors s))),
      s\<lparr>processors := map (map_option (\<lambda>p. snd (proc_process_packet L p None))) (processors s)\<rparr>)"
  by (simp add: drain_def drain_loop_eq last_failure_def)

theorem drain_flushes_all_witness:
  "fst (drain example_libs draining_reader) = - 7 \<and>
   map (map_option sinks) (processors (snd (drain example_libs draining_reader))) =
     [Some [(0, 4, 0)], None, Some [(0, 4, 4)], Some [(0, 4, 0)]]"
  using drain_flushes_all [of example_libs draining_reader]
  by (simp add: draining_reader_def example_libs_def spec_process_packet_def last_failure_def)

text \<open>
  Claim C10. \<open>is_buffer_ready\<close> is true when no slot holds a processor, as on a reader
  just constructed: it is true exactly when every processor that is present is ready.
\<close>

theorem is_buffer_ready_vacuous:
  "(list_all (\<lambda>p. p = None) (processors s) \<longrightarrow> is_buffer_ready L s) \<and>
   (StreamReader_new L ctx = Inr s \<longrightarrow> is_buffer_ready L s) \<and>
   is_buffer_ready L s = (\<forall>p. Some p \<in> set (processors s) \<longrightarrow> proc_is_buffer_ready L p)"
  by (auto simp: is_buffer_ready_def buffers_ready_iff StreamReader_new_def list_all_iff
        split: prod.splits if_splits)

theorem is_buffer_ready_vacuous_witness:
  "list_all (\<lambda>p. p = None) (processors fresh_reader) \<and> is_buffer_ready example_libs fresh_reader \<and>
   StreamReader_new example_libs \<lparr>streams = [audio_stream, video_stream], demux = []\<rparr> = Inr fresh_reader"
  using is_buffer_ready_vacuous [of fresh_reader example_libs "\<lparr>streams = [audio_stream, video_stream], demux = []\<rparr>"]
  by (simp add: fresh_reader_def StreamReader_new_def example_libs_def audio_stream_def video_stream_def audio_par_def video_par_def)

section \<open>Seeking\<close>

text \<open>
  Claim C5. \<open>seek\<close> with a negative timestamp throws and leaves the reader as it was:
  the demultiplexer, the processors and the output index. With a timestamp that is not
  negative and a seek the container accepts, every processor that is present is flushed
  (the flush itself, which drops the buffered data, is the processor's).
\<close>

theorem seek_outcomes:
  "(t < 0 \<longrightarrow> seek L t s = (Inl NegativeTimestamp, s)) \<and>
   (0 \<le> t \<and> static_cast_int64 (t * real_of_int (AV_TIME_BASE L)) = Some ts \<and>
    pFormatContext s = Some ctx \<and>
    avformat_seek_file L ctx (- 1) INT64_MIN ts INT64_MAX 0 = (ret, ctx') \<and> 0 \<le> ret \<longrightarrow>
      seek L t s =
        (Inr (), s\<lparr> pFormatContext := Some ctx',
                    processors := map (map_option (proc_flush L)) (processors s) \<rparr>))"
  by (auto simp: seek_def flush_all_map Let_def)

theorem seek_outcomes_witness:
  "(- 1 :: real) < 0 \<and> seek example_libs (- 1) (scripted_reader []) = (Inl NegativeTimestamp, scripted_reader []) \<and>
   (0 :: real) \<le> 2 \<and> static_cast_int64 (2 * real_of_int (AV_TIME_BASE example_libs)) = Some 2000000 \<and>
   fst (seek example_libs 2 (scripted_reader [(0, \<lparr>stream_index = 0, size = 3\<rparr>)])) = Inr () \<and>
   processors (snd (seek example_libs 2 (scripted_reader [(0, \<lparr>stream_index = 0, size = 3\<rparr>)]))) =
     [Some (spec_flush \<lparr>current_key = 1, sinks = [(0, 4, 0)], decoder_status = 0\<rparr>), None]"
  using seek_outcomes [where t = "- 1" and L = example_libs and s = "scripted_reader []"]
    seek_outcomes [where t = 2 and L = example_libs and ts = 2000000
      and s = "scripted_reader [(0, \<lparr>stream_index = 0, size = 3\<rparr>)]"
      and ctx = "\<lparr>streams = [audio_stream, video_stream], demux = [(0, \<lparr>stream_index = 0, size = 3\<rparr>)]\<rparr>"
      and ret = 0 and ctx' = "\<lparr>streams = [audio_stream, video_stream], demux = []\<rparr>"]
  by (simp add: scripted_reader_def example_libs_def static_cast_int64_def INT64_MIN_def INT64_MAX_def)

section \<open>Adding a stream of the wrong kind\<close>

text \<open>
  Claim C7. On a valid source index of a video stream \<open>add_audio_stream\<close> throws the
  type mismatch and leaves the reader as it was: no processor, no output definition, no
  entry of the output index. On an audio stream \<open>add_video_stream\<close> throws as well and
  leaves the reader as it was; its exception is the type mismatch unless the request for
  hardware acceleration is refused first.
\<close>

theorem add_stream_wrong_kind:
  assumes "pFormatContext s = Some ctx" and "0 \<le> i" and "i < int (length (streams ctx))"
    and "int (length (streams ctx)) < 2 ^ 31"
  shows
   "(codec_type (codecpar (streams ctx ! nat i)) = AVMEDIA_TYPE_VIDEO \<longrightarrow>
       add_audio_stream L i frames_per_chunk num_chunks filter_desc decoder decoder_option s =
         (Inl (NotMediaType i AVMEDIA_TYPE_AUDIO), s)) \<and>
    (codec_type (codecpar (streams ctx ! nat i)) = AVMEDIA_TYPE_AUDIO \<longrightarrow>
       add_video_stream L i frames_per_chunk num_chunks filter_desc decoder decoder_option
           hw_accel s =
         (Inl (case hw_accel_device L hw_accel of
                 Inl e \<Rightarrow> e | Inr device \<Rightarrow> NotMediaType i AVMEDIA_TYPE_VIDEO), s))"
proof -
  have i: "static_cast_int i = i"
    using assms by (intro static_cast_int_id) auto
  have n: "static_cast_int (int (length (streams ctx))) = int (length (streams ctx))"
    using assms by (intro static_cast_int_id) auto
  show ?thesis
    using assms
    by (auto simp: add_audio_stream_def add_video_stream_def add_stream_def
          validate_src_stream_type_def validate_src_stream_index_def validate_open_stream_def
          vec_at_def i n split: sum.splits)
qed

theorem add_stream_wrong_kind_witness:
  "add_audio_stream example_libs 1 1024 3 None None None fresh_reader =
     (Inl (NotMediaType 1 AVMEDIA_TYPE_AUDIO), fresh_reader) \<and>
   add_video_stream example_libs 0 1 3 None None None None fresh_reader =
     (Inl (NotMediaType 0 AVMEDIA_TYPE_VIDEO), fresh_reader) \<and>
   add_video_stream example_libs 0 1 3 None None None (Some ''cuda'') fresh_reader =
     (Inl NoCudaSupport, fresh_reader)"
  using add_stream_wrong_kind [where s = fresh_reader and L = example_libs and i = 1
      and ctx = "\<lparr>streams = [audio_stream, video_stream], demux = []\<rparr>"
      and frames_per_chunk = 1024 and num_chunks = 3 and filter_desc = None and decoder = None
      and decoder_option = None and hw_accel = None]
   add_stream_wrong_kind [where s = fresh_reader and L = example_libs and i = 0
      and ctx = "\<lparr>streams = [audio_stream, video_stream], demux = []\<rparr>"
      and frames_per_chunk = 1 and num_chunks = 3 and filter_desc = None and decoder = None
      and decoder_option = None and hw_accel = None]
   add_stream_wrong_kind [where s = fresh_reader and L = example_libs and i = 0
      and ctx = "\<lparr>streams = [audio_stream, video_stream], demux = []\<rparr>"
      and frames_per_chunk = 1 and num_chunks = 3 and filter_desc = None and decoder = None
      and decoder_option = None and hw_accel = "Some ''cuda''"]
  by (simp add: fresh_reader_def audio_stream_def video_stream_def audio_par_def video_par_def hw_accel_device_def example_libs_def)

section \<open>Validation in the effects chain\<close>

text \<open>
  Claim C8. \<open>addEffect\<close> throws, with the chain and the signal descriptions as they
  were, on an empty argument list, on a name of the unsupported set and on a name the
  registry of the audio library does not know.
\<close>

theorem addEffect_validation:
  "(effect = [] \<longrightarrow> addEffect X effect s = (Inl EmptyEffect, s)) \<and>
   (effect \<noteq> [] \<and>
    (hd effect \<in> UNSUPPORTED_EFFECTS X \<or> sox_find_effect X (c_str (hd effect)) = None) \<longrightarrow>
      addEffect X effect s = (Inl (UnsupportedEffect (hd effect)), s))"
  by (auto simp: addEffect_def Let_def)

theorem addEffect_validation_witness:
  "addEffect example_sox [] empty_chain = (Inl EmptyEffect, empty_chain) \<and>
   hd [''input''] \<in> UNSUPPORTED_EFFECTS example_sox \<and>
   addEffect example_sox [''input''] empty_chain = (Inl (UnsupportedEffect ''input''), empty_chain) \<and>
   sox_find_effect example_sox (c_str (hd [''reverb'', ''50''])) = None \<and>
   addEffect example_sox [''reverb'', ''50''] empty_chain = (Inl (UnsupportedEffect ''reverb''), empty_chain)"
  using addEffect_validation [of "[]" example_sox empty_chain]
    addEffect_validation [of "[''input'']" example_sox empty_chain]
    addEffect_validation [of "[''reverb'', ''50'']" example_sox empty_chain]
  by (simp add: example_sox_def c_str_def)

section \<open>The output index and the invariant\<close>

lemmas example_defs =
  fresh_reader_def example_reader_def reader_A_def reader_AB_def reader_ABC_def reader_AC_def
  example_libs_def spec_add_stream_def spec_remove_stream_def
  audio_stream_def video_stream_def audio_par_def video_par_def

lemma scan_still_used_iff:
  "scan_still_used iP xs b = (b \<or> iP \<in> fst ` set xs)"
  by (induction iP xs b rule: scan_still_used.induct) (auto simp: Let_def)

lemma vec_at_Some_iff:
  "vec_at v i = Some x \<longleftrightarrow> 0 \<le> i \<and> i < int (length v) \<and> v ! nat i = x"
  by (auto simp: vec_at_def)

lemma vec_at_None_iff: "vec_at v i = None \<longleftrightarrow> \<not> (0 \<le> i \<and> i < int (length v))"
  by (auto simp: vec_at_def)

lemma length_vec_erase:
  "0 \<le> i \<Longrightarrow> i < int (length v) \<Longrightarrow> length (vec_erase v i) = length v - 1"
  by (auto simp: vec_erase_def)

lemma vec_erase_before:
  "0 \<le> k \<Longrightarrow> k < i \<Longrightarrow> i < int (length v) \<Longrightarrow> vec_at (vec_erase v i) k = vec_at v k"
  by (auto simp: vec_erase_def vec_at_def nth_append)

lemma vec_erase_after:
  "0 \<le> i \<Longrightarrow> i \<le> k \<Longrightarrow> k < int (length v) - 1 \<Longrightarrow> vec_at (vec_erase v i) k = vec_at v (k + 1)"
  by (auto simp: vec_erase_def vec_at_def nth_append nat_add_distrib)

lemma reader_inv_iff:
  "reader_inv s \<longleftrightarrow>
     (\<forall>e \<in> set (stream_indices s). 0 \<le> fst e \<and> fst e < int (length (processors s))) \<and>
     (\<forall>j < length (processors s). (processors s ! j \<noteq> None) = (int j \<in> fst ` set (stream_indices s)))"
proof -
  have "list_all (\<lambda>e. vec_at (processors s) (fst e) \<noteq> None) (stream_indices s) \<longleftrightarrow>
        (\<forall>e \<in> set (stream_indices s). 0 \<le> fst e \<and> fst e < int (length (processors s)))"
    unfolding list_all_iff vec_at_def by (auto split: if_splits)
  moreover have "list_all (\<lambda>i. (processors s ! i \<noteq> None) = referenced s (int i)) [0..<length (processors s)] \<longleftrightarrow>
        (\<forall>j < length (processors s). (processors s ! j \<noteq> None) = (int j \<in> fst ` set (stream_indices s)))"
    unfolding list_all_iff referenced_def by auto
  ultimately show ?thesis unfolding reader_inv_def by blast
qed

lemma set_vec_erase:
  "0 \<le> i \<Longrightarrow> i < int (length v) \<Longrightarrow> set v = insert (v ! nat i) (set (vec_erase v i))"
proof -
  assume a: "0 \<le> i" "i < int (length v)"
  then have "nat i < length v" by linarith
  then have "v = take (nat i) v @ (v ! nat i) # drop (Suc (nat i)) v"
    by (rule id_take_nth_drop)
  then have "set v = set (take (nat i) v @ (v ! nat i) # drop (Suc (nat i)) v)" by simp
  then show ?thesis by (simp add: vec_erase_def)
qed

lemma add_stream_success:
  assumes "add_stream L i type n m fd dec opt dev s = (Inr u, s')"
  shows "\<exists>key p. stream_indices s' = stream_indices s @ [(i, key)] \<and>
           0 \<le> i \<and> i < int (length (processors s)) \<and>
           processors s' = (processors s)[nat i := Some p]"
  using assms
  by (auto simp: add_stream_def vec_at_def vec_set_def Let_def
        split: option.splits sum.splits prod.splits if_splits)

lemma add_stream_preserves_inv:
  assumes "reader_inv s" and "add_stream L i type n m fd dec opt dev s = (Inr u, s')"
  shows "reader_inv s'"
proof -
  from add_stream_success [OF assms(2)] obtain key p where
    si: "stream_indices s' = stream_indices s @ [(i, key)]" and
    i: "0 \<le> i" "i < int (length (processors s))" and
    ps: "processors s' = (processors s)[nat i := Some p]"
    by blast
  from i have ni: "nat i < length (processors s)" by linarith
  have "int (nat i) = i" using i by simp
  then show ?thesis
    using assms(1) i ni
    unfolding reader_inv_iff si ps
    by (auto simp: nth_list_update)
qed

lemma remove_stream_success:
  assumes "remove_stream L i s = (Inr u, s')"
  shows "0 \<le> static_cast_int i \<and> static_cast_int i < static_cast_int (int (length (stream_indices s))) \<and>
         0 \<le> i \<and> i < int (length (stream_indices s)) \<and>
         stream_indices s' = vec_erase (stream_indices s) i \<and>
         (\<exists>p'. processors s' =
            (if fst (stream_indices s ! nat i) \<in> fst ` set (vec_erase (stream_indices s) i)
             then (processors s)[nat (fst (stream_indices s ! nat i)) := Some p']
             else (processors s)[nat (fst (stream_indices s ! nat i)) := None]))"
  using assms
  by (auto simp: remove_stream_def validate_output_stream_index_def vec_at_def vec_set_def Let_def
        scan_still_used_iff
        split: option.splits sum.splits prod.splits if_splits)

lemma remove_stream_preserves_inv:
  assumes "reader_inv s" and "remove_stream L i s = (Inr u, s')"
  shows "reader_inv s'"
proof -
  let ?e = "stream_indices s ! nat i"
  let ?iP = "fst ?e"
  let ?rest = "vec_erase (stream_indices s) i"
  from remove_stream_success [OF assms(2)] obtain p' where
    i: "0 \<le> i" "i < int (length (stream_indices s))" and
    si: "stream_indices s' = ?rest" and
    ps: "processors s' =
            (if ?iP \<in> fst ` set ?rest
             then (processors s)[nat ?iP := Some p']
             else (processors s)[nat ?iP := None])"
    by blast
  have set_eq: "set (stream_indices s) = insert ?e (set ?rest)"
    using i by (rule set_vec_erase)
  have mem: "?e \<in> set (stream_indices s)" using set_eq by blast
  have a: "\<forall>e \<in> set (stream_indices s). 0 \<le> fst e \<and> fst e < int (length (processors s))"
    using assms(1) unfolding reader_inv_iff by blast
  have b: "\<forall>j < length (processors s). (processors s ! j \<noteq> None) = (int j \<in> fst ` set (stream_indices s))"
    using assms(1) unfolding reader_inv_iff by blast
  have iP: "0 \<le> ?iP" "?iP < int (length (processors s))"
    using a mem by auto
  have sub: "set ?rest \<subseteq> set (stream_indices s)" using set_eq by blast
  have len: "length (processors s') = length (processors s)"
    using ps by (auto split: if_splits)
  have c1: "\<forall>e \<in> set ?rest. 0 \<le> fst e \<and> fst e < int (length (processors s'))"
    using a sub len by auto
  have c2: "\<forall>j < length (processors s'). (processors s' ! j \<noteq> None) = (int j \<in> fst ` set ?rest)"
  proof (intro allI impI)
    fix j assume j: "j < length (processors s')"
    then have j': "j < length (processors s)" using ps by (auto split: if_splits)
    show "(processors s' ! j \<noteq> None) = (int j \<in> fst ` set ?rest)"
    proof (cases "int j = ?iP")
      case True
      then have "nat ?iP = j" by simp
      then show ?thesis using ps j' True by (auto split: if_splits)
    next
      case False
      then have ne: "nat ?iP \<noteq> j" using iP by linarith
      have "(int j \<in> fst ` set (stream_indices s)) = (int j \<in> fst ` set ?rest)"
        using False by (subst set_eq) auto
      then show ?thesis using ps b j' ne by (auto split: if_splits)
    qed
  qed
  show ?thesis
    unfolding reader_inv_iff si
    using c1 c2 by blast
qed

lemma StreamReader_new_inv: "StreamReader_new L ctx = Inr s \<Longrightarrow> reader_inv s"
  by (auto simp: StreamReader_new_def reader_inv_iff split: prod.splits if_splits)

lemma reader_inv_cong:
  assumes "stream_indices s' = stream_indices s"
    and "map (\<lambda>p. p = None) (processors s') = map (\<lambda>p. p = None) (processors s)"
  shows "reader_inv s' = reader_inv s"
proof -
  from assms(2) have len: "length (processors s') = length (processors s)"
    by (rule map_eq_imp_length_eq)
  have nth: "(processors s' ! j = None) = (processors s ! j = None)" if "j < length (processors s)" for j
  proof -
    have "map (\<lambda>p. p = None) (processors s') ! j = map (\<lambda>p. p = None) (processors s) ! j"
      using assms(2) by simp
    then show ?thesis using that len by simp
  qed
  show ?thesis
    unfolding reader_inv_iff assms(1) len using nth by simp
qed

lemma reader_inv_update_present:
  assumes "reader_inv s" and "vec_at (processors s) k = Some (Some p)"
  shows "reader_inv (s\<lparr>processors := (processors s)[nat k := Some q]\<rparr>)"
proof -
  from assms(2) have k: "nat k < length (processors s)" "processors s ! nat k = Some p"
    by (auto simp: vec_at_def split: if_splits)
  have "map (\<lambda>p. p = None) ((processors s)[nat k := Some q]) = map (\<lambda>p. p = None) (processors s)"
    using k by (simp add: map_update list_update_same_conv)
  then have "reader_inv (s\<lparr>processors := (processors s)[nat k := Some q]\<rparr>) = reader_inv s"
    by (intro reader_inv_cong) simp_all
  then show ?thesis
    using assms(1) by blast
qed

lemma add_stream_rejected:
  assumes "add_stream L i type n m fd dec opt dev s = (Inl e, s')" and "\<forall>x. e \<noteq> CollaboratorError x"
  shows "s' = s"
  using assms
  by (auto simp: add_stream_def Let_def
        split: option.splits sum.splits prod.splits if_splits)

lemma remove_stream_failure:
  assumes "remove_stream L j s = (Inl e, s')" and "e \<noteq> UndefinedBehaviour" and "reader_inv s"
  shows "reader_inv s'"
  using assms
  by (auto simp: remove_stream_def vec_set_def Let_def
        split: option.splits sum.splits prod.splits if_splits
        intro: reader_inv_update_present)

lemma reader_inv_add_stream:
  assumes "reader_inv s" and "add_stream L i type n m fd dec opt dev s = (r, s')"
    and "\<forall>x. r \<noteq> Inl (CollaboratorError x)"
  shows "reader_inv s'"
proof (cases r)
  case (Inr u)
  then show ?thesis using assms add_stream_preserves_inv by blast
next
  case (Inl e)
  then have "s' = s" using assms(2,3) add_stream_rejected by blast
  then show ?thesis using assms(1) by simp
qed

lemma reader_inv_remove_stream:
  assumes "reader_inv s" and "remove_stream L j s = (r, s')" and "r \<noteq> Inl UndefinedBehaviour"
  shows "reader_inv s'"
proof (cases r)
  case (Inr u)
  then show ?thesis using assms remove_stream_preserves_inv by blast
next
  case (Inl e)
  then show ?thesis using assms remove_stream_failure by blast
qed

lemma busy_reader_reached:
  "add_audio_stream example_libs 0 16 3 None None None
     (snd (add_audio_stream example_libs 0 8 3 None None None
        (snd (add_audio_stream example_libs 0 4 3 None None None fresh_reader)))) = (Inr (), busy_reader)"
  by (simp add: add_audio_stream_def add_stream_def validate_src_stream_type_def
        validate_src_stream_index_def validate_open_stream_def static_cast_int_def vec_at_def vec_set_def
        fresh_reader_def busy_reader_def example_libs_def spec_add_stream_def
        audio_stream_def video_stream_def audio_par_def video_par_def)

lemma add_audio_stream_index_wraps:
  "add_audio_stream L 4294967296 n m fd dec opt s = add_audio_stream L 0 n m fd dec opt s"
  by (simp add: add_audio_stream_def static_cast_int_def)

text \<open>
  Claim C3. The invariant holds on a reader just constructed, and the lemmas above keep
  it through every call that returns and every call the reader's own checks refuse. Two
  calls break it. When the processor's \<^verbatim>\<open>add_stream\<close> throws on the first output
  stream of a source, the processor created for it stays in its slot with no entry of
  the output index naming it. And \<open>remove_stream\<close> checks its index after the
  conversion to \<^verbatim>\<open>int\<close> but erases at the unconverted index: with one output stream,
  index \<open>2^32\<close> passes the check as 0 and the erase is outside the vector.
\<close>

theorem failed_add_leaves_processor:
  "reader_inv fresh_reader \<and>
   fst (add_audio_stream rejecting_libs 0 4 3 (Some ''nofilter'') None None fresh_reader) =
     Inl (CollaboratorError ''filter'') \<and>
   processors (snd (add_audio_stream rejecting_libs 0 4 3 (Some ''nofilter'') None None fresh_reader)) =
     [Some \<lparr>current_key = 0, sinks = [], decoder_status = 0\<rparr>, None] \<and>
   stream_indices (snd (add_audio_stream rejecting_libs 0 4 3 (Some ''nofilter'') None None fresh_reader)) = [] \<and>
   \<not> reader_inv (snd (add_audio_stream rejecting_libs 0 4 3 (Some ''nofilter'') None None fresh_reader)) \<and>
   remove_stream L 4294967296 (scripted_reader []) = (Inl UndefinedBehaviour, scripted_reader [])"
  by (simp add: add_audio_stream_def add_stream_def validate_src_stream_type_def
        validate_src_stream_index_def validate_open_stream_def static_cast_int_def vec_at_def vec_set_def
        fresh_reader_def rejecting_libs_def example_libs_def reader_inv_def referenced_def
        remove_stream_def validate_output_stream_index_def scripted_reader_def
        audio_stream_def video_stream_def audio_par_def video_par_def)

text \<open>
  Claim C4. A successful add puts one entry at the end of the output index, at index
  \<open>num_out_streams\<close>. A successful \<open>remove_stream j\<close> has a valid \<open>j\<close>, erases
  exactly entry \<open>j\<close>, keeps the entries before it and moves each later entry down by
  one; on a valid index of a reader that satisfies the invariant it succeeds exactly
  when the processor's \<^verbatim>\<open>remove_stream\<close> does. After adding A, B and C to an empty
  output index and removing index 1 the index has length 2 and C is at index 1. (Both
  public methods add through \<open>add_stream\<close>.)
\<close>

theorem output_index_dense:
  "(add_stream L i type n m fd dec opt dev s = (Inr u, s') \<longrightarrow>
      (\<exists>key. stream_indices s' = stream_indices s @ [(i, key)] \<and>
             vec_at (stream_indices s') (num_out_streams s) = Some (i, key)) \<and>
      num_out_streams s' = num_out_streams s + 1) \<and>
   (add_audio_stream L a n m fd dec opt s = (Inr u, s') \<longrightarrow>
      (\<exists>key. stream_indices s' = stream_indices s @ [(static_cast_int a, key)])) \<and>
   (add_video_stream L a n m fd dec opt hw s = (Inr u, s') \<longrightarrow>
      (\<exists>key. stream_indices s' = stream_indices s @ [(static_cast_int a, key)])) \<and>
   (remove_stream L j s = (Inr u, s') \<longrightarrow>
      0 \<le> j \<and> j < num_out_streams s \<and>
      stream_indices s' = vec_erase (stream_indices s) j \<and>
      num_out_streams s' = num_out_streams s - 1 \<and>
      (\<forall>k. 0 \<le> k \<and> k < j \<longrightarrow> vec_at (stream_indices s') k = vec_at (stream_indices s) k) \<and>
      (\<forall>k. j \<le> k \<and> k < num_out_streams s - 1 \<longrightarrow>
           vec_at (stream_indices s') k = vec_at (stream_indices s) (k + 1))) \<and>
   (0 \<le> j \<and> j < num_out_streams s \<and> num_out_streams s < 2 ^ 31 \<and> reader_inv s \<longrightarrow>
      (\<exists>iP key p. vec_at (stream_indices s) j = Some (iP, key) \<and>
          vec_at (processors s) iP = Some (Some p) \<and>
          (fst (remove_stream L j s) = Inr ()) = (fst (proc_remove_stream L p key) = Inr ()))) \<and>
   (stream_indices r0 = [] \<and>
    add_stream L iA tA nA mA fA dA oA vA r0 = (Inr u, rA) \<and>
    add_stream L iB tB nB mB fB dB oB vB rA = (Inr u, rAB) \<and>
    add_stream L iC tC nC mC fC dC oC vC rAB = (Inr u, rABC) \<and>
    remove_stream L 1 rABC = (Inr u, rAC) \<longrightarrow>
      (\<exists>kA kB kC. stream_indices rABC = [(iA, kA), (iB, kB), (iC, kC)] \<and>
                  stream_indices rAC = [(iA, kA), (iC, kC)]) \<and>
      num_out_streams rAC = 2 \<and>
      vec_at (stream_indices rAC) 1 = vec_at (stream_indices rABC) 2)"
proof (intro conjI impI)
  assume "add_stream L i type n m fd dec opt dev s = (Inr u, s')"
  from add_stream_success [OF this] obtain key where k: "stream_indices s' = stream_indices s @ [(i, key)]"
    by blast
  then show "\<exists>key. stream_indices s' = stream_indices s @ [(i, key)] \<and>
             vec_at (stream_indices s') (num_out_streams s) = Some (i, key)"
    by (auto simp: vec_at_def num_out_streams_def)
  from k show "num_out_streams s' = num_out_streams s + 1"
    by (simp add: num_out_streams_def)
next
  assume "add_audio_stream L a n m fd dec opt s = (Inr u, s')"
  then show "\<exists>key. stream_indices s' = stream_indices s @ [(static_cast_int a, key)]"
    unfolding add_audio_stream_def using add_stream_success by blast
next
  assume "add_video_stream L a n m fd dec opt hw s = (Inr u, s')"
  then obtain dev where
    "add_stream L (static_cast_int a) AVMEDIA_TYPE_VIDEO (static_cast_int n) (static_cast_int m)
        fd dec opt dev s = (Inr u, s')"
    unfolding add_video_stream_def by (auto split: sum.splits)
  then show "\<exists>key. stream_indices s' = stream_indices s @ [(static_cast_int a, key)]"
    using add_stream_success by blast
next
  assume r: "remove_stream L j s = (Inr u, s')"
  from remove_stream_success [OF r] have
    j: "0 \<le> j" "j < int (length (stream_indices s))" and
    e: "stream_indices s' = vec_erase (stream_indices s) j"
    by blast+
  show "0 \<le> j" by fact
  show "j < num_out_streams s" using j by (simp add: num_out_streams_def)
  show "stream_indices s' = vec_erase (stream_indices s) j" by fact
  show "num_out_streams s' = num_out_streams s - 1"
    using j e by (simp add: num_out_streams_def length_vec_erase)
  show "\<forall>k. 0 \<le> k \<and> k < j \<longrightarrow> vec_at (stream_indices s') k = vec_at (stream_indices s) k"
    using j e by (simp add: vec_erase_before)
  show "\<forall>k. j \<le> k \<and> k < num_out_streams s - 1 \<longrightarrow>
           vec_at (stream_indices s') k = vec_at (stream_indices s) (k + 1)"
    using j e by (simp add: vec_erase_after num_out_streams_def)
next
  assume a: "0 \<le> j \<and> j < num_out_streams s \<and> num_out_streams s < 2 ^ 31 \<and> reader_inv s"
  then have j: "0 \<le> j" "j < int (length (stream_indices s))" "int (length (stream_indices s)) < 2 ^ 31"
    and inv: "reader_inv s"
    by (auto simp: num_out_streams_def)
  obtain iP key where e: "stream_indices s ! nat j = (iP, key)" by (cases "stream_indices s ! nat j")
  have at: "vec_at (stream_indices s) j = Some (iP, key)" using j e by (simp add: vec_at_def)
  have "(iP, key) \<in> set (stream_indices s)"
    using j e by (metis nat_less_iff nth_mem)
  then have iP: "0 \<le> iP" "iP < int (length (processors s))" "int (nat iP) \<in> fst ` set (stream_indices s)"
    using inv unfolding reader_inv_iff by force+
  then have "processors s ! nat iP \<noteq> None"
    using inv unfolding reader_inv_iff by (metis nat_less_iff)
  then obtain p where p: "processors s ! nat iP = Some p" by blast
  have pat: "vec_at (processors s) iP = Some (Some p)" using iP p by (simp add: vec_at_def)
  have c1: "static_cast_int j = j" using j by (intro static_cast_int_id) auto
  have c2: "static_cast_int (int (length (stream_indices s))) = int (length (stream_indices s))"
    using j by (intro static_cast_int_id) auto
  have "(fst (remove_stream L j s) = Inr ()) = (fst (proc_remove_stream L p key) = Inr ())"
    using j at pat
    by (simp add: remove_stream_def validate_output_stream_index_def c1 c2 Let_def
          split: prod.splits sum.splits)
  with at pat show "\<exists>iP key p. vec_at (stream_indices s) j = Some (iP, key) \<and>
          vec_at (processors s) iP = Some (Some p) \<and>
          (fst (remove_stream L j s) = Inr ()) = (fst (proc_remove_stream L p key) = Inr ())"
    by blast
next
  assume h: "stream_indices r0 = [] \<and>
    add_stream L iA tA nA mA fA dA oA vA r0 = (Inr u, rA) \<and>
    add_stream L iB tB nB mB fB dB oB vB rA = (Inr u, rAB) \<and>
    add_stream L iC tC nC mC fC dC oC vC rAB = (Inr u, rABC) \<and>
    remove_stream L 1 rABC = (Inr u, rAC)"
  then obtain kA where "stream_indices rA = [(iA, kA)]" using add_stream_success by fastforce
  moreover from h obtain kB where "stream_indices rAB = stream_indices rA @ [(iB, kB)]"
    using add_stream_success by blast
  moreover from h obtain kC where "stream_indices rABC = stream_indices rAB @ [(iC, kC)]"
    using add_stream_success by blast
  ultimately have rABC: "stream_indices rABC = [(iA, kA), (iB, kB), (iC, kC)]" by simp
  from h have "stream_indices rAC = vec_erase (stream_indices rABC) 1"
    using remove_stream_success by blast
  then have rAC: "stream_indices rAC = [(iA, kA), (iC, kC)]"
    using rABC by (simp add: vec_erase_def)
  show "\<exists>kA kB kC. stream_indices rABC = [(iA, kA), (iB, kB), (iC, kC)] \<and>
                  stream_indices rAC = [(iA, kA), (iC, kC)]"
    using rABC rAC by blast
  show "num_out_streams rAC = 2" using rAC by (simp add: num_out_streams_def)
  show "vec_at (stream_indices rAC) 1 = vec_at (stream_indices rABC) 2"
    using rABC rAC by (simp add: vec_at_def)
qed

theorem output_index_dense_witness:
  "stream_indices fresh_reader = [] \<and>
   add_stream example_libs 0 AVMEDIA_TYPE_AUDIO 4 3 None None None (Device CPU) fresh_reader = (Inr (), reader_A) \<and>
   add_stream example_libs 1 AVMEDIA_TYPE_VIDEO 1 3 None None None (Device CPU) reader_A = (Inr (), reader_AB) \<and>
   add_stream example_libs 0 AVMEDIA_TYPE_AUDIO 8 3 None None None (Device CPU) reader_AB = (Inr (), reader_ABC) \<and>
   remove_stream example_libs 1 reader_ABC = (Inr (), reader_AC) \<and>
   reader_inv reader_ABC \<and> num_out_streams reader_ABC = 3 \<and>
   stream_indices reader_AC = [(0, 0), (0, 1)] \<and>
   num_out_streams reader_AC = 2 \<and>
   vec_at (stream_indices reader_AC) 1 = Some (0, 1)"
  using output_index_dense [where L = example_libs and ?r0.0 = fresh_reader and rA = reader_A
      and rAB = reader_AB and rABC = reader_ABC and rAC = reader_AC and u = "()"
      and iA = 0 and tA = AVMEDIA_TYPE_AUDIO and nA = 4 and mA = 3 and fA = None and dA = None
      and oA = None and vA = "Device CPU"
      and iB = 1 and tB = AVMEDIA_TYPE_VIDEO and nB = 1 and mB = 3 and fB = None and dB = None
      and oB = None and vB = "Device CPU"
      and iC = 0 and tC = AVMEDIA_TYPE_AUDIO and nC = 8 and mC = 3 and fC = None and dC = None
      and oC = None and vC = "Device CPU"
      and s = reader_ABC and s' = reader_AC and j = 1]
  by (simp add: add_stream_def remove_stream_def validate_src_stream_type_def
        validate_src_stream_index_def validate_open_stream_def validate_output_stream_index_def
        static_cast_int_def vec_at_def vec_set_def vec_erase_def num_out_streams_def
        reader_inv_def referenced_def example_defs)

text \<open>
  Claim C6, as amended. On an open reader, for every \<^verbatim>\<open>int\<close> outside the range of the
  source streams, \<open>get_src_stream_info\<close> and \<open>add_audio_stream\<close> throw the
  out-of-range error of the source index and change nothing; \<open>add_video_stream\<close> does
  the same unless its request for hardware acceleration is refused first, and changes
  nothing either way. For every \<^verbatim>\<open>int\<close> outside the range of the output index,
  \<open>remove_stream\<close> throws the out-of-range error of the output index and changes
  nothing.
\<close>

theorem index_out_of_range:
  assumes "pFormatContext s = Some ctx" and "int (length (streams ctx)) < 2 ^ 31"
  shows
   "(- (2 ^ 31) \<le> i \<and> i < 2 ^ 31 \<and> (i < 0 \<or> int (length (streams ctx)) \<le> i) \<longrightarrow>
       get_src_stream_info L s i = Inl SrcIndexOutOfRange \<and>
       add_audio_stream L i n m fd dec opt s = (Inl SrcIndexOutOfRange, s) \<and>
       add_video_stream L i n m fd dec opt hw s =
         (Inl (case hw_accel_device L hw of Inl e \<Rightarrow> e | Inr device \<Rightarrow> SrcIndexOutOfRange), s)) \<and>
    (num_out_streams s < 2 ^ 31 \<and> - (2 ^ 31) \<le> j \<and> j < 2 ^ 31 \<and> (j < 0 \<or> num_out_streams s \<le> j) \<longrightarrow>
       remove_stream L j s = (Inl OutIndexOutOfRange, s))"
proof -
  have n: "static_cast_int (int (length (streams ctx))) = int (length (streams ctx))"
    using assms by (intro static_cast_int_id) auto
  have m: "num_out_streams s < 2 ^ 31 \<Longrightarrow>
      static_cast_int (int (length (stream_indices s))) = int (length (stream_indices s))"
    unfolding num_out_streams_def by (intro static_cast_int_id) auto
  show ?thesis
    using assms n m
    by (auto simp: get_src_stream_info_def add_audio_stream_def add_video_stream_def add_stream_def
          remove_stream_def validate_src_stream_type_def validate_src_stream_index_def
          validate_open_stream_def validate_output_stream_index_def num_out_streams_def
          static_cast_int_id split: sum.splits)
qed

theorem index_out_of_range_witness:
  "get_src_stream_info example_libs fresh_reader 2 = Inl SrcIndexOutOfRange \<and>
   add_audio_stream example_libs (- 1) 4 3 None None None fresh_reader = (Inl SrcIndexOutOfRange, fresh_reader) \<and>
   add_video_stream example_libs 2 4 3 None None None None fresh_reader = (Inl SrcIndexOutOfRange, fresh_reader) \<and>
   add_video_stream example_libs (- 1) 4 3 None None None (Some ''cuda'') fresh_reader = (Inl NoCudaSupport, fresh_reader) \<and>
   remove_stream example_libs 0 fresh_reader = (Inl OutIndexOutOfRange, fresh_reader) \<and>
   remove_stream example_libs 3 busy_reader = (Inl OutIndexOutOfRange, busy_reader)"
  using index_out_of_range [where s = fresh_reader and L = example_libs
      and ctx = "\<lparr>streams = [audio_stream, video_stream], demux = []\<rparr>"
      and i = 2 and j = 0 and n = 4 and m = 3 and fd = None and dec = None and opt = None and hw = None]
    index_out_of_range [where s = fresh_reader and L = example_libs
      and ctx = "\<lparr>streams = [audio_stream, video_stream], demux = []\<rparr>"
      and i = "- 1" and j = 0 and n = 4 and m = 3 and fd = None and dec = None and opt = None
      and hw = "Some ''cuda''"]
    index_out_of_range [where s = busy_reader and L = example_libs
      and ctx = "\<lparr>streams = [audio_stream, video_stream], demux = []\<rparr>"
      and i = 2 and j = 3 and n = 4 and m = 3 and fd = None and dec = None and opt = None
      and hw = "Some ''cuda''"]
  by (simp add: fresh_reader_def busy_reader_def num_out_streams_def hw_accel_device_def example_libs_def)

text \<open>The claim as it is written fails for \<open>remove_stream\<close>, whose index is
  checked against the output index: with two source streams and three output streams,
  index 2 is outside the range of the source streams and the call succeeds.\<close>

theorem remove_stream_beyond_source_range:
  "num_src_streams busy_reader = Some 2 \<and> \<not> (2 :: int) < 2 \<and>
   remove_stream example_libs 2 busy_reader =
     (Inr (), busy_reader\<lparr> processors := [Some \<lparr>current_key = 3, sinks = [(0, 4, 0), (1, 8, 0)], decoder_status = 0\<rparr>, None],
                            stream_indices := [(0, 0), (0, 1)] \<rparr>)"
  by (simp add: remove_stream_def validate_output_stream_index_def static_cast_int_def vec_at_def
        vec_set_def vec_erase_def num_src_streams_def busy_reader_def example_libs_def
        spec_remove_stream_def)

section \<open>Polling with a deadline\<close>















end
